theory Spec2Isabelle
  imports Complex_Main
begin

section \<open>Dates, times of day and timestamps\<close>

text \<open>
  The dashboard (\<^verbatim>\<open>app.py\<close>) works with Python \<^verbatim>\<open>datetime\<close> values and the
  lookahead script (\<^verbatim>\<open>lookahead_buques.py\<close>) with pandas timestamps. A calendar date
  is its day number, a time of day is the record of its four fields, and a timestamp is
  the number of microseconds it stands for: \<^verbatim>\<open>datetime.combine\<close> puts a date and a
  time of day together, and the order of timestamps is the order of these numbers.
\<close>

type_synonym date = int

record clock =
  hour :: nat
  minute :: nat
  second :: nat
  microsecond :: nat

type_synonym timestamp = int

definition clock_us :: "clock \<Rightarrow> int" where
  "clock_us t =
     ((int (hour t) * 60 + int (minute t)) * 60 + int (second t)) * 1000000 + int (microsecond t)"

definition combine :: "date \<Rightarrow> clock \<Rightarrow> timestamp" where
  "combine d t = d * 86400000000 + clock_us t"

text \<open>\<^verbatim>\<open>datetime.min.time()\<close> and \<^verbatim>\<open>datetime.max.time()\<close>.\<close>

definition time_min :: clock where
  "time_min = \<lparr>hour = 0, minute = 0, second = 0, microsecond = 0\<rparr>"

definition time_max :: clock where
  "time_max = \<lparr>hour = 23, minute = 59, second = 59, microsecond = 999999\<rparr>"

text \<open>\<^verbatim>\<open>pd.Timedelta(hours=h)\<close>, in microseconds.\<close>

definition Timedelta_hours :: "int \<Rightarrow> int" where
  "Timedelta_hours h = h * 3600000000"

section \<open>Cells of the uploaded table\<close>

text \<open>
  A cell read from the spreadsheet is missing (\<^verbatim>\<open>None\<close>, \<^verbatim>\<open>NaN\<close>, \<^verbatim>\<open>NaT\<close>: whatever
  \<^verbatim>\<open>pd.isna\<close> accepts), a structured timestamp (\<^verbatim>\<open>pd.Timestamp\<close> or \<^verbatim>\<open>datetime\<close>), a
  number, or any other object, which the parser only reads through \<^verbatim>\<open>str\<close>: \<open>Text s\<close>
  is an object whose \<^verbatim>\<open>str\<close> is \<open>s\<close>. Numbers are exact rationals.
\<close>

datatype cell = NaN | Stamp date clock | Num rat | Text string

definition isna :: "cell \<Rightarrow> bool" where
  "isna c = (c = NaN)"

text \<open>
  Every exception the library calls inside the parser's \<^verbatim>\<open>try\<close> block can raise is an
  \<^verbatim>\<open>Exception\<close>, which is what \<^verbatim>\<open>except Exception\<close> catches.
\<close>

datatype exn = ValueError | ParserError | OutOfBoundsDatetime | TypeError | IndexError

text \<open>
  The pandas calls of the parser are parameters of the model: each returns its value or
  the exception it raises.
  \<^item> \<open>to_datetime_dayfirst s\<close> is \<^verbatim>\<open>pd.to_datetime(s, dayfirst=True).date()\<close>;
  \<^item> \<open>to_datetime_HMS s\<close> is \<^verbatim>\<open>pd.to_datetime(s, format='%H:%M:%S').time()\<close>;
  \<^item> \<open>str_num x\<close> is \<^verbatim>\<open>str(x)\<close> for a number \<open>x\<close>.
\<close>

record pandas =
  to_datetime_dayfirst :: "string \<Rightarrow> exn + date"
  to_datetime_HMS :: "string \<Rightarrow> exn + clock"
  str_num :: "rat \<Rightarrow> string"

subsection \<open>Python string operations\<close>

text \<open>
  A character of a text is a code point below 256. The ones \<^verbatim>\<open>str.isspace\<close> accepts,
  which are the ones \<^verbatim>\<open>strip\<close> removes, are tab to carriage return (9 to 13), the four
  separators and space (28 to 32), next line (133) and no-break space (160).
\<close>

definition is_space :: "char \<Rightarrow> bool" where
  "is_space c =
     (let n = (of_char c :: nat)
      in (9 \<le> n \<and> n \<le> 13) \<or> (28 \<le> n \<and> n \<le> 32) \<or> n = 133 \<or> n = 160)"

text \<open>\<^verbatim>\<open>s.strip()\<close>.\<close>

definition strip :: "string \<Rightarrow> string" where
  "strip s = rev (dropWhile is_space (rev (dropWhile is_space s)))"

text \<open>\<^verbatim>\<open>s.split(c)\<close> for a one-character separator: the fields between the separators.\<close>

fun split :: "char \<Rightarrow> string \<Rightarrow> string list" where
  "split c [] = [[]]"
| "split c (x # xs) =
     (if x = c then [] # split c xs
      else (case split c xs of [] \<Rightarrow> [[x]] | w # ws \<Rightarrow> (x # w) # ws))"

text \<open>\<^verbatim>\<open>xs[0]\<close>, which raises \<^verbatim>\<open>IndexError\<close> on an empty list.\<close>

definition first :: "'a list \<Rightarrow> 'a option" where
  "first xs = (case xs of [] \<Rightarrow> None | x # _ \<Rightarrow> Some x)"

text \<open>\<^verbatim>\<open>str(v)\<close> of a cell.\<close>

definition str :: "pandas \<Rightarrow> cell \<Rightarrow> string" where
  "str lib v = (case v of Text s \<Rightarrow> s | Num x \<Rightarrow> str_num lib x | _ \<Rightarrow> ''nan'')"

section \<open>The row parser\<close>

text \<open>
  \<^verbatim>\<open>parse_datetime_from_row\<close>, from the two cells \<^verbatim>\<open>df.loc[row_index, date_col]\<close> and
  \<^verbatim>\<open>df.loc[row_index, time_col]\<close> on. The body of its \<^verbatim>\<open>try\<close> block is
  \<open>try_block\<close>: the date part, then the time part, then \<^verbatim>\<open>datetime.combine\<close>; the first
  exception ends it.
\<close>

definition date_part :: "pandas \<Rightarrow> cell \<Rightarrow> exn + date" where
  "date_part lib date_val =
     (case date_val of
        Stamp d t \<Rightarrow> Inr d
      | _ \<Rightarrow> (let date_str = strip (str lib date_val) in to_datetime_dayfirst lib date_str))"

definition time_part :: "pandas \<Rightarrow> cell \<Rightarrow> exn + clock" where
  "time_part lib time_val =
     (case time_val of
        Stamp d t \<Rightarrow> Inr t
      | _ \<Rightarrow>
         (let time_str = strip (str lib time_val) in
          if CHR ''.'' \<in> set time_str then
            (case first (split (CHR ''.'') time_str) of
               None \<Rightarrow> Inl IndexError
             | Some time_str' \<Rightarrow> to_datetime_HMS lib time_str')
          else to_datetime_HMS lib time_str))"

definition try_block :: "pandas \<Rightarrow> cell \<Rightarrow> cell \<Rightarrow> exn + timestamp" where
  "try_block lib date_val time_val =
     (case date_part lib date_val of
        Inl e \<Rightarrow> Inl e
      | Inr d \<Rightarrow>
         (case time_part lib time_val of
            Inl e \<Rightarrow> Inl e
          | Inr t \<Rightarrow> Inr (combine d t)))"

text \<open>
  The result is \<open>Inr None\<close> for \<^verbatim>\<open>return None\<close>, \<open>Inr (Some ts)\<close> for a timestamp, and
  would be \<open>Inl e\<close> for an exception that leaves the function.
\<close>

definition parse_datetime_from_row :: "pandas \<Rightarrow> cell \<Rightarrow> cell \<Rightarrow> exn + timestamp option" where
  "parse_datetime_from_row lib date_val time_val =
     (if isna date_val \<or> isna time_val then Inr None
      else (case try_block lib date_val time_val of
              Inr ts \<Rightarrow> Inr (Some ts)
            | Inl e \<Rightarrow> Inr None))"

subsection \<open>A reading of the format \<^verbatim>\<open>%H:%M:%S\<close>\<close>

text \<open>
  For concrete evaluations: three fields separated by colons, each of one or two decimal
  digits, the hour at most 23, the minute and the second at most 59; anything else is a
  \<^verbatim>\<open>ValueError\<close>. The date parser of the evaluations knows the dates it is given in a
  table and rejects every other text.
\<close>

definition digit :: "char \<Rightarrow> nat option" where
  "digit c = (let n = (of_char c :: nat) in if 48 \<le> n \<and> n \<le> 57 then Some (n - 48) else None)"

fun number2 :: "string \<Rightarrow> nat option" where
  "number2 [a] = digit a"
| "number2 [a, b] =
     (case digit a of None \<Rightarrow> None
      | Some x \<Rightarrow> (case digit b of None \<Rightarrow> None | Some y \<Rightarrow> Some (10 * x + y)))"
| "number2 _ = None"

definition strptime_HMS :: "string \<Rightarrow> exn + clock" where
  "strptime_HMS s =
     (case split (CHR '':'') s of
        [h, m, sec] \<Rightarrow>
          (case number2 h of None \<Rightarrow> Inl ValueError
           | Some H \<Rightarrow>
              (case number2 m of None \<Rightarrow> Inl ValueError
               | Some M \<Rightarrow>
                  (case number2 sec of None \<Rightarrow> Inl ValueError
                   | Some S \<Rightarrow>
                      if H \<le> 23 \<and> M \<le> 59 \<and> S \<le> 59
                      then Inr \<lparr>hour = H, minute = M, second = S, microsecond = 0\<rparr>
                      else Inl ValueError)))
      | _ \<Rightarrow> Inl ValueError)"

definition table_dates :: "(string \<times> date) list \<Rightarrow> string \<Rightarrow> exn + date" where
  "table_dates tab s = (case map_of tab s of None \<Rightarrow> Inl ParserError | Some d \<Rightarrow> Inr d)"

definition sample_pandas :: pandas where
  "sample_pandas =
     \<lparr>to_datetime_dayfirst = table_dates [(''13/10/2025'', 739537), (''15/10/2025'', 739539)],
      to_datetime_HMS = strptime_HMS,
      str_num = (\<lambda>x. ''0.5'')\<rparr>"

section \<open>The uploaded table and the processing loop\<close>

text \<open>
  The table \<^verbatim>\<open>df\<close> read from the spreadsheet: its column names and its rows.
  \<^verbatim>\<open>df.loc[i, col]\<close> on the row of index \<^verbatim>\<open>i\<close> is \<open>loc row col\<close>, the cell of the
  column as the object pandas returns. The docking and deadweight columns are numeric
  columns (pandas gives a column of numbers the dtype \<^verbatim>\<open>float64\<close>), where a cell is a
  number or \<^verbatim>\<open>NaN\<close>: \<open>loc_number row col\<close> is the cell of such a column. A table whose
  docking or deadweight column holds text or timestamps is not a table of this model.
\<close>

record table_row =
  cells :: "string \<Rightarrow> cell"
  numbers :: "string \<Rightarrow> rat option"

record dataframe =
  columns :: "string list"
  rows :: "table_row list"

definition loc :: "table_row \<Rightarrow> string \<Rightarrow> cell" where
  "loc row col = cells row col"

definition loc_number :: "table_row \<Rightarrow> string \<Rightarrow> rat option" where
  "loc_number row col = numbers row col"

definition try_get_col :: "dataframe \<Rightarrow> string list \<Rightarrow> string option" where
  "try_get_col df candidates = find (\<lambda>c. c \<in> set (columns df)) candidates"

definition ship_names :: "string list" where
  "ship_names = [''SHIP'', ''Ship'', ''ship'', ''Buque'', ''BUQUE'', ''NOMBRE'', ''Vessel'']"

definition arr_day_names :: "string list" where
  "arr_day_names =
     [''Arrival day'', ''ArrivalDay'', ''arrivalDay'', ''Arrival_day'', ''ETA date'', ''Arrival date'']"

definition arr_time_names :: "string list" where
  "arr_time_names = [''Arrival time'', ''arrivalTime'', ''ArrivalTime'', ''ETA time'', ''ETA'']"

definition dep_day_names :: "string list" where
  "dep_day_names =
     [''Departure day'', ''DepartureDay'', ''depDay'', ''Departure_day'', ''ETD date'',
      ''Departure date'']"

definition dep_time_names :: "string list" where
  "dep_time_names = [''Departure time'', ''departureTime'', ''ETD time'', ''ETD'', ''Departure_time'']"

definition berth_names :: "string list" where
  "berth_names = [''Arrival'', ''Berth'', ''Pier'', ''Muelle'', ''muelle'', ''BERTH'', ''Terminal'']"

definition docking_names :: "string list" where
  "docking_names = [''Docking time (h)'', ''DockingTime'', ''dockingTime'', ''Docking Time'', ''Docking'']"

definition est_docking_names :: "string list" where
  "est_docking_names =
     [''Estimated Docking Time (h)'', ''EstDockingTime'', ''estDockingTime'', ''Est Docking Time'',
      ''EstDocking'']"

definition dwt_names :: "string list" where
  "dwt_names = [''DWT'', ''dwt'', ''Deadweight'', ''DeadWeight'']"

text \<open>The list \<^verbatim>\<open>missing\<close> of the critical columns that were not found.\<close>

definition missing :: "dataframe \<Rightarrow> string list" where
  "missing df =
     (if try_get_col df ship_names = None then [''SHIP/Vessel''] else []) @
     (if try_get_col df arr_day_names = None then [''Arrival day''] else []) @
     (if try_get_col df arr_time_names = None then [''Arrival time''] else []) @
     (if try_get_col df dep_day_names = None then [''Departure day''] else []) @
     (if try_get_col df dep_time_names = None then [''Departure time''] else [])"

text \<open>
  The columns the loop reads: the five critical ones, which are present once \<^verbatim>\<open>missing\<close>
  is empty, and the four optional ones.
\<close>

record cols =
  col_ship :: string
  col_arr_day :: string
  col_arr_time :: string
  col_dep_day :: string
  col_dep_time :: string
  col_berth :: "string option"
  col_docking :: "string option"
  col_est_docking :: "string option"
  col_dwt :: "string option"

text \<open>
  A row of \<^verbatim>\<open>proc\<close>. The timestamps are missing where the parser returned \<^verbatim>\<open>None\<close>;
  the docking times and the deadweight are the cells of numeric columns, and missing
  where the table has no such column.
\<close>

record vessel =
  SHIP :: cell
  arrival_dt :: "timestamp option"
  departure_dt :: "timestamp option"
  Berth :: cell
  DockingTime :: "rat option"
  EstDockingTime :: "rat option"
  DWT :: "rat option"

text \<open>\<^verbatim>\<open>df.loc[i, col] if col else None\<close>, for a column of objects and for a numeric one.\<close>

definition loc_if :: "table_row \<Rightarrow> string option \<Rightarrow> cell" where
  "loc_if row col = (case col of Some c \<Rightarrow> loc row c | None \<Rightarrow> NaN)"

definition loc_number_if :: "table_row \<Rightarrow> string option \<Rightarrow> rat option" where
  "loc_number_if row col = (case col of Some c \<Rightarrow> loc_number row c | None \<Rightarrow> None)"

text \<open>
  One turn of the loop \<^verbatim>\<open>for i in df.index\<close>: the body of its \<^verbatim>\<open>try\<close>, and the loop
  itself, which skips a row whose body raised (\<^verbatim>\<open>continue\<close>).
\<close>

definition process_row :: "pandas \<Rightarrow> cols \<Rightarrow> table_row \<Rightarrow> exn + vessel" where
  "process_row lib cs row =
     (case parse_datetime_from_row lib (loc row (col_arr_day cs)) (loc row (col_arr_time cs)) of
        Inl e \<Rightarrow> Inl e
      | Inr arr_dt \<Rightarrow>
         (case parse_datetime_from_row lib (loc row (col_dep_day cs)) (loc row (col_dep_time cs)) of
            Inl e \<Rightarrow> Inl e
          | Inr dep_dt \<Rightarrow>
             Inr \<lparr>SHIP = loc row (col_ship cs),
                  arrival_dt = arr_dt,
                  departure_dt = dep_dt,
                  Berth = loc_if row (col_berth cs),
                  DockingTime = loc_number_if row (col_docking cs),
                  EstDockingTime = loc_number_if row (col_est_docking cs),
                  DWT = loc_number_if row (col_dwt cs)\<rparr>))"

fun process :: "pandas \<Rightarrow> cols \<Rightarrow> table_row list \<Rightarrow> vessel list" where
  "process lib cs [] = []"
| "process lib cs (row # rest) =
     (case process_row lib cs row of
        Inl e \<Rightarrow> process lib cs rest
      | Inr v \<Rightarrow> v # process lib cs rest)"

text \<open>\<^verbatim>\<open>proc.dropna(subset=["arrival_dt","departure_dt"])\<close>.\<close>

definition proc_valid :: "vessel list \<Rightarrow> vessel list" where
  "proc_valid proc = filter (\<lambda>r. arrival_dt r \<noteq> None \<and> departure_dt r \<noteq> None) proc"

section \<open>Classification\<close>

text \<open>
  A comparison of a timestamp column with a bound is false on a missing timestamp
  (\<^verbatim>\<open>NaT\<close>), in pandas and in Python alike.
\<close>

definition ts_lt :: "timestamp option \<Rightarrow> timestamp \<Rightarrow> bool" where
  "ts_lt x b = (case x of None \<Rightarrow> False | Some a \<Rightarrow> a < b)"

definition ts_le :: "timestamp option \<Rightarrow> timestamp \<Rightarrow> bool" where
  "ts_le x b = (case x of None \<Rightarrow> False | Some a \<Rightarrow> a \<le> b)"

definition ts_gt :: "timestamp option \<Rightarrow> timestamp \<Rightarrow> bool" where
  "ts_gt x b = (case x of None \<Rightarrow> False | Some a \<Rightarrow> a > b)"

definition ts_ge :: "timestamp option \<Rightarrow> timestamp \<Rightarrow> bool" where
  "ts_ge x b = (case x of None \<Rightarrow> False | Some a \<Rightarrow> a \<ge> b)"

definition arriving :: "vessel list \<Rightarrow> timestamp \<Rightarrow> timestamp \<Rightarrow> vessel list" where
  "arriving pv current_dt end_dt =
     filter (\<lambda>r. ts_ge (arrival_dt r) current_dt \<and> ts_le (arrival_dt r) end_dt) pv"

definition departing :: "vessel list \<Rightarrow> timestamp \<Rightarrow> timestamp \<Rightarrow> vessel list" where
  "departing pv current_dt end_dt =
     filter (\<lambda>r. ts_ge (departure_dt r) current_dt \<and> ts_le (departure_dt r) end_dt) pv"

definition in_port :: "vessel list \<Rightarrow> timestamp \<Rightarrow> timestamp \<Rightarrow> vessel list" where
  "in_port pv current_dt end_dt =
     filter (\<lambda>r. ts_lt (arrival_dt r) end_dt \<and> ts_gt (departure_dt r) current_dt) pv"

section \<open>Occupancy by berth\<close>

text \<open>
  \<^verbatim>\<open>groupby(key)\<close> leaves out the rows whose key is missing; the result is indexed by
  the keys, so it is a map from the keys that occur to their aggregates (the order in
  which pandas lists the groups is not modelled). \<^verbatim>\<open>count\<close> counts the cells that are
  not missing, \<^verbatim>\<open>sum\<close> and \<^verbatim>\<open>mean\<close> skip the missing ones, and the mean of none is
  missing.
\<close>

definition group_rows :: "vessel list \<Rightarrow> cell \<Rightarrow> vessel list" where
  "group_rows df k = filter (\<lambda>r. Berth r = k) df"

definition count_SHIP :: "vessel list \<Rightarrow> nat" where
  "count_SHIP g = length (filter (\<lambda>r. \<not> isna (SHIP r)) g)"

definition fillna0 :: "rat option \<Rightarrow> rat" where
  "fillna0 x = (case x of None \<Rightarrow> 0 | Some w \<Rightarrow> w)"

definition present :: "rat option list \<Rightarrow> rat list" where
  "present xs = concat (map (\<lambda>x. case x of None \<Rightarrow> [] | Some w \<Rightarrow> [w]) xs)"

definition mean :: "rat option list \<Rightarrow> rat option" where
  "mean xs = (if present xs = [] then None
              else Some (sum_list (present xs) / of_nat (length (present xs))))"

record occ_row =
  Vessels :: nat
  Total_DWT :: rat
  Avg_Docking :: "rat option"

definition occ :: "vessel list \<Rightarrow> cell \<Rightarrow> occ_row option" where
  "occ in_port_rows k =
     (if isna k \<or> group_rows in_port_rows k = [] then None
      else Some \<lparr>Vessels = count_SHIP (group_rows in_port_rows k),
                 Total_DWT = sum_list (present (map DWT (group_rows in_port_rows k))),
                 Avg_Docking = mean (map DockingTime (group_rows in_port_rows k))\<rparr>)"

section \<open>Deadweight in port over the period\<close>

text \<open>
  The rows that seed the series, those already in port at the start of the window, and
  \<^verbatim>\<open>initial_dwt\<close>, the sum of their deadweight after \<^verbatim>\<open>fillna(0)\<close>.
\<close>

definition at_start :: "vessel list \<Rightarrow> timestamp \<Rightarrow> vessel list" where
  "at_start pv current_dt =
     filter (\<lambda>r. ts_lt (arrival_dt r) current_dt \<and> ts_gt (departure_dt r) current_dt) pv"

definition initial_dwt :: "vessel list \<Rightarrow> timestamp \<Rightarrow> rat" where
  "initial_dwt pv current_dt = sum_list (map (\<lambda>r. fillna0 (DWT r)) (at_start pv current_dt))"

datatype event_type = Initial | Final | Arrival | Departure

record event =
  ev_Date :: timestamp
  ev_DWT :: rat
  ev_Type :: event_type
  ev_Vessel :: cell

text \<open>
  The body of the loop \<^verbatim>\<open>for _, row in proc_valid.iterrows()\<close>: the events one row
  appends to \<^verbatim>\<open>dwt_timeline\<close>, under the guard \<^verbatim>\<open>pd.notna(row['DWT'])\<close>.
\<close>

definition row_events :: "timestamp \<Rightarrow> timestamp \<Rightarrow> vessel \<Rightarrow> event list" where
  "row_events current_dt end_dt row =
     (case DWT row of
        None \<Rightarrow> []
      | Some w \<Rightarrow>
         (case arrival_dt row of
            None \<Rightarrow> []
          | Some a \<Rightarrow>
             if current_dt \<le> a \<and> a \<le> end_dt
             then [\<lparr>ev_Date = a, ev_DWT = w, ev_Type = Arrival, ev_Vessel = SHIP row\<rparr>]
             else []) @
         (case departure_dt row of
            None \<Rightarrow> []
          | Some d \<Rightarrow>
             if current_dt \<le> d \<and> d \<le> end_dt
             then [\<lparr>ev_Date = d, ev_DWT = w, ev_Type = Departure, ev_Vessel = SHIP row\<rparr>]
             else []))"

definition dwt_timeline :: "vessel list \<Rightarrow> timestamp \<Rightarrow> timestamp \<Rightarrow> event list" where
  "dwt_timeline pv current_dt end_dt = concat (map (row_events current_dt end_dt) pv)"

text \<open>The column \<^verbatim>\<open>DWT_Change\<close> and the running sum \<^verbatim>\<open>cumsum\<close>.\<close>

definition DWT_Change :: "event \<Rightarrow> rat" where
  "DWT_Change x = (if ev_Type x = Arrival then ev_DWT x else - ev_DWT x)"

fun cumsum_from :: "rat \<Rightarrow> rat list \<Rightarrow> rat list" where
  "cumsum_from acc [] = []"
| "cumsum_from acc (x # xs) = (acc + x) # cumsum_from (acc + x) xs"

definition cumsum :: "rat list \<Rightarrow> rat list" where
  "cumsum xs = cumsum_from 0 xs"

record point =
  pt_Date :: timestamp
  pt_DWT_in_Port :: rat
  pt_Type :: event_type

text \<open>
  \<^verbatim>\<open>dwt_plot\<close>, or \<open>None\<close> where the script shows "No DWT data available" instead.
  \<^verbatim>\<open>sort_values("Date")\<close> is the sort by date that keeps events of one date in the
  order of the list.
\<close>

definition dwt_plot :: "vessel list \<Rightarrow> timestamp \<Rightarrow> timestamp \<Rightarrow> point list option" where
  "dwt_plot pv current_dt end_dt =
     (let init = initial_dwt pv current_dt;
          timeline = dwt_timeline pv current_dt end_dt
      in if timeline \<noteq> [] \<or> init > 0 then
           (if timeline \<noteq> [] then
              (let dwt_df = sort_key ev_Date timeline;
                   in_port_col = map (\<lambda>c. init + c) (cumsum (map DWT_Change dwt_df))
               in Some (\<lparr>pt_Date = current_dt, pt_DWT_in_Port = init, pt_Type = Initial\<rparr> #
                        map (\<lambda>(x, v). \<lparr>pt_Date = ev_Date x, pt_DWT_in_Port = v, pt_Type = ev_Type x\<rparr>)
                          (zip dwt_df in_port_col)))
            else
              Some [\<lparr>pt_Date = current_dt, pt_DWT_in_Port = init, pt_Type = Initial\<rparr>,
                    \<lparr>pt_Date = end_dt, pt_DWT_in_Port = init, pt_Type = Final\<rparr>])
         else None)"

section \<open>The dashboard script\<close>

text \<open>
  The script from the upload to its outputs. It stops (\<^verbatim>\<open>st.stop()\<close>) at the first of
  its checks that fails, and then computes nothing that follows.
\<close>

datatype upload = NotUploaded | Unreadable | Loaded dataframe

datatype halt = NoUpload | ReadError | ConfigError | MissingColumns "string list" | NoValidData

record outputs =
  out_arriving :: "vessel list"
  out_departing :: "vessel list"
  out_in_port :: "vessel list"
  out_occ :: "(cell \<Rightarrow> occ_row option) option"
  out_dwt_plot :: "point list option"

definition analyse :: "vessel list \<Rightarrow> timestamp \<Rightarrow> timestamp \<Rightarrow> outputs" where
  "analyse pv current_dt end_dt =
     \<lparr>out_arriving = arriving pv current_dt end_dt,
      out_departing = departing pv current_dt end_dt,
      out_in_port = in_port pv current_dt end_dt,
      out_occ = (if in_port pv current_dt end_dt = [] then None
                 else Some (occ (in_port pv current_dt end_dt))),
      out_dwt_plot = dwt_plot pv current_dt end_dt\<rparr>"

definition run :: "pandas \<Rightarrow> upload \<Rightarrow> date \<Rightarrow> date \<Rightarrow> halt + outputs" where
  "run lib uploaded start_date end_date =
     (case uploaded of
        NotUploaded \<Rightarrow> Inl NoUpload
      | Unreadable \<Rightarrow> Inl ReadError
      | Loaded df \<Rightarrow>
         (let current_dt = combine start_date time_min;
              end_dt = combine end_date time_max
          in if end_dt \<le> current_dt then Inl ConfigError
             else if missing df \<noteq> [] then Inl (MissingColumns (missing df))
             else
               (case (try_get_col df ship_names, try_get_col df arr_day_names,
                      try_get_col df arr_time_names, try_get_col df dep_day_names,
                      try_get_col df dep_time_names) of
                  (Some c1, Some c2, Some c3, Some c4, Some c5) \<Rightarrow>
                    (let cs = \<lparr>col_ship = c1, col_arr_day = c2, col_arr_time = c3,
                               col_dep_day = c4, col_dep_time = c5,
                               col_berth = try_get_col df berth_names,
                               col_docking = try_get_col df docking_names,
                               col_est_docking = try_get_col df est_docking_names,
                               col_dwt = try_get_col df dwt_names\<rparr>;
                         pv = proc_valid (process lib cs (rows df))
                     in if pv = [] then Inl NoValidData
                        else Inr (analyse pv current_dt end_dt))
                | _ \<Rightarrow> Inl (MissingColumns (missing df)))))"

section \<open>The lookahead script\<close>

text \<open>
  \<^verbatim>\<open>ocupacion(df, tiempo_actual, lookahead_h)\<close> of \<^verbatim>\<open>lookahead_buques.py\<close>: the rows
  \<^verbatim>\<open>activos\<close> it selects, and the count of ships by berth it returns. Its table has the
  columns \<^verbatim>\<open>SHIP\<close>, \<^verbatim>\<open>Muelle\<close>, \<^verbatim>\<open>arrival\<close> and \<^verbatim>\<open>departure\<close>, which are the fields
  \<open>SHIP\<close>, \<open>Berth\<close>, \<open>arrival_dt\<close> and \<open>departure_dt\<close> of a row here.
\<close>

definition fin_ventana :: "timestamp \<Rightarrow> int \<Rightarrow> timestamp" where
  "fin_ventana tiempo_actual lookahead_h = tiempo_actual + Timedelta_hours lookahead_h"

definition activos :: "vessel list \<Rightarrow> timestamp \<Rightarrow> int \<Rightarrow> vessel list" where
  "activos df tiempo_actual lookahead_h =
     filter (\<lambda>r. ts_le (arrival_dt r) (fin_ventana tiempo_actual lookahead_h) \<and>
                 ts_ge (departure_dt r) tiempo_actual) df"

definition ocupacion :: "vessel list \<Rightarrow> timestamp \<Rightarrow> int \<Rightarrow> cell \<Rightarrow> nat option" where
  "ocupacion df tiempo_actual lookahead_h k =
     (if isna k \<or> group_rows (activos df tiempo_actual lookahead_h) k = [] then None
      else Some (count_SHIP (group_rows (activos df tiempo_actual lookahead_h) k)))"

section \<open>Sample data\<close>

text \<open>
  The vessels and the window of the evaluations below. The window is the one the
  dashboard builds from 13 October 2025 and 20 October 2025: from the first microsecond
  of the first day to the last microsecond of the last one. Vessel A arrives on
  10 October at 08:00 and leaves on 15 October at 10:00; B arrives on 15 October and has
  no deadweight; C has left before the window; D leaves at the very start of the window;
  E has no arrival.
\<close>

definition at_clock :: "nat \<Rightarrow> nat \<Rightarrow> clock" where
  "at_clock h m = \<lparr>hour = h, minute = m, second = 0, microsecond = 0\<rparr>"

definition window_start :: timestamp where
  "window_start = combine 739537 time_min"

definition window_end :: timestamp where
  "window_end = combine 739544 time_max"

definition vessel_A :: vessel where
  "vessel_A =
     \<lparr>SHIP = Text ''A'',
      arrival_dt = Some (combine 739534 (at_clock 8 0)),
      departure_dt = Some (combine 739539 (at_clock 10 0)),
      Berth = Text ''B1'', DockingTime = None, EstDockingTime = None, DWT = Some 50000\<rparr>"

definition vessel_B :: vessel where
  "vessel_B =
     \<lparr>SHIP = Text ''B'',
      arrival_dt = Some (combine 739539 (at_clock 10 0)),
      departure_dt = Some (combine 739541 (at_clock 6 30)),
      Berth = Text ''B1'', DockingTime = None, EstDockingTime = None, DWT = None\<rparr>"

definition vessel_C :: vessel where
  "vessel_C =
     \<lparr>SHIP = Text ''C'',
      arrival_dt = Some (combine 739530 (at_clock 8 0)),
      departure_dt = Some (combine 739534 (at_clock 10 0)),
      Berth = Text ''B2'', DockingTime = None, EstDockingTime = None, DWT = Some 30000\<rparr>"

definition vessel_D :: vessel where
  "vessel_D =
     \<lparr>SHIP = Text ''D'',
      arrival_dt = Some (combine 739534 (at_clock 8 0)),
      departure_dt = Some window_start,
      Berth = Text ''B2'', DockingTime = None, EstDockingTime = None, DWT = Some 30000\<rparr>"

definition vessel_E :: vessel where
  "vessel_E =
     \<lparr>SHIP = Text ''E'',
      arrival_dt = None,
      departure_dt = Some (combine 739539 (at_clock 10 0)),
      Berth = Text ''B2'', DockingTime = None, EstDockingTime = None, DWT = Some 30000\<rparr>"

definition vessel_F :: vessel where
  "vessel_F =
     \<lparr>SHIP = Text ''F'',
      arrival_dt = Some (combine 739534 (at_clock 8 0)),
      departure_dt = Some (combine 739549 (at_clock 10 0)),
      Berth = Text ''B3'', DockingTime = None, EstDockingTime = None, DWT = Some 70000\<rparr>"

text \<open>
  F stays from 10 October to 25 October, across the whole window. The sample table has
  two rows: the first parses, to the vessel \<open>vessel_A13\<close> that arrives on 13 October at
  14:30:45 and leaves on 15 October at 10:00; the second has an arrival day no date
  parser reads.
\<close>

definition row_of :: "(string \<times> cell) list \<Rightarrow> (string \<times> rat) list \<Rightarrow> table_row" where
  "row_of cs ns =
     \<lparr>cells = (\<lambda>col. case map_of cs col of None \<Rightarrow> NaN | Some c \<Rightarrow> c),
      numbers = map_of ns\<rparr>"

definition sample_df :: dataframe where
  "sample_df =
     \<lparr>columns = [''SHIP'', ''Arrival day'', ''Arrival time'', ''Departure day'',
                 ''Departure time'', ''DWT''],
      rows = [row_of [(''SHIP'', Text ''A''), (''Arrival day'', Text ''13/10/2025''),
                      (''Arrival time'', Text ''14:30:45.500''),
                      (''Departure day'', Stamp 739539 (at_clock 0 0)),
                      (''Departure time'', Text ''10:00:00''), (''DWT'', Num 50000)]
                     [(''DWT'', 50000)],
              row_of [(''SHIP'', Text ''G''), (''Arrival day'', Text ''soon''),
                      (''Arrival time'', Text ''08:00:00''),
                      (''Departure day'', Text ''15/10/2025''),
                      (''Departure time'', Text ''10:00:00''), (''DWT'', Num 20000)]
                     [(''DWT'', 20000)]]\<rparr>"

definition vessel_A13 :: vessel where
  "vessel_A13 =
     \<lparr>SHIP = Text ''A'',
      arrival_dt = Some (combine 739537 \<lparr>hour = 14, minute = 30, second = 45, microsecond = 0\<rparr>),
      departure_dt = Some (combine 739539 (at_clock 10 0)),
      Berth = NaN, DockingTime = None, EstDockingTime = None, DWT = Some 50000\<rparr>"

definition sample_cols :: cols where
  "sample_cols =
     \<lparr>col_ship = ''SHIP'', col_arr_day = ''Arrival day'', col_arr_time = ''Arrival time'',
      col_dep_day = ''Departure day'', col_dep_time = ''Departure time'',
      col_berth = None, col_docking = None, col_est_docking = None, col_dwt = Some ''DWT''\<rparr>"

section \<open>Properties of the classification\<close>

lemmas sample_defs = vessel_A_def vessel_B_def vessel_C_def vessel_D_def vessel_E_def
  vessel_F_def window_start_def window_end_def at_clock_def combine_def clock_us_def time_min_def time_max_def

lemmas ts_defs = ts_lt_def ts_le_def ts_gt_def ts_ge_def

text \<open>
  C1. A valid record, with arrival \<open>a\<close> and departure \<open>d\<close>, is in the In-Port subset
  exactly when \<open>a < end_dt\<close> and \<open>d > current_dt\<close>; a record that departs exactly at the
  start of the window, or arrives exactly at its end, is not in it. This holds for every
  window, and so for every window whose end is after its start.
\<close>

theorem in_port_membership:
  assumes "r \<in> set (proc_valid proc)"
    and "arrival_dt r = Some a" and "departure_dt r = Some d"
  shows "(r \<in> set (in_port (proc_valid proc) current_dt end_dt) \<longleftrightarrow> a < end_dt \<and> d > current_dt)
       \<and> (d = current_dt \<longrightarrow> r \<notin> set (in_port (proc_valid proc) current_dt end_dt))
       \<and> (a = end_dt \<longrightarrow> r \<notin> set (in_port (proc_valid proc) current_dt end_dt))"
  using assms by (simp add: in_port_def ts_defs)

theorem in_port_membership_witness:
  "vessel_A \<in> set (proc_valid [vessel_A, vessel_E]) \<and> window_start < window_end
   \<and> vessel_A \<in> set (in_port (proc_valid [vessel_A, vessel_E]) window_start window_end)"
  using in_port_membership [of vessel_A "[vessel_A, vessel_E]" "combine 739534 (at_clock 8 0)"
      "combine 739539 (at_clock 10 0)" window_start window_end]
  by (simp add: proc_valid_def sample_defs)

text \<open>
  C5. A valid record is in the Arriving subset exactly when its arrival lies in the
  window, both ends included, and in the Departing subset exactly when its departure
  does.
\<close>

theorem arriving_departing_membership:
  assumes "r \<in> set (proc_valid proc)"
    and "arrival_dt r = Some a" and "departure_dt r = Some d"
  shows "(r \<in> set (arriving (proc_valid proc) current_dt end_dt) \<longleftrightarrow> current_dt \<le> a \<and> a \<le> end_dt)
       \<and> (r \<in> set (departing (proc_valid proc) current_dt end_dt) \<longleftrightarrow> current_dt \<le> d \<and> d \<le> end_dt)"
  using assms by (simp add: arriving_def departing_def ts_defs)

theorem arriving_departing_membership_witness:
  "vessel_A \<in> set (proc_valid [vessel_A, vessel_E])
   \<and> vessel_A \<notin> set (arriving (proc_valid [vessel_A, vessel_E]) window_start window_end)
   \<and> vessel_A \<in> set (departing (proc_valid [vessel_A, vessel_E]) window_start window_end)"
  using arriving_departing_membership [of vessel_A "[vessel_A, vessel_E]"
      "combine 739534 (at_clock 8 0)" "combine 739539 (at_clock 10 0)" window_start window_end]
  by (simp add: proc_valid_def sample_defs)

text \<open>
  C10. In a window whose end is after its start, every valid record that is counted in
  \<open>initial_dwt\<close> (the rows \<open>at_start\<close>) is in the In-Port subset.
\<close>

theorem at_start_in_port:
  assumes "current_dt < end_dt" and "r \<in> set (at_start (proc_valid proc) current_dt)"
  shows "r \<in> set (in_port (proc_valid proc) current_dt end_dt)"
  using assms by (auto simp: at_start_def in_port_def ts_defs split: option.splits)

theorem at_start_in_port_witness:
  "window_start < window_end
   \<and> vessel_A \<in> set (at_start (proc_valid [vessel_A, vessel_E]) window_start)
   \<and> vessel_A \<in> set (in_port (proc_valid [vessel_A, vessel_E]) window_start window_end)"
  using at_start_in_port [of window_start window_end vessel_A "[vessel_A, vessel_E]"]
  by (simp add: proc_valid_def at_start_def ts_defs sample_defs)

section \<open>Properties of the row parser\<close>

lemmas parse_defs = parse_datetime_from_row_def try_block_def date_part_def time_part_def
  table_dates_def isna_def str_def strip_def is_space_def first_def sample_pandas_def
  strptime_HMS_def digit_def

lemma first_split: "first (split c s) = Some (takeWhile (\<lambda>x. x \<noteq> c) s)"
  by (induction s) (auto simp: first_def split: list.splits)

lemma takeWhile_no_sep: "c \<notin> set s \<Longrightarrow> takeWhile (\<lambda>x. x \<noteq> c) s = s"
  by (induction s) auto

text \<open>
  C9. A time cell that is not a structured timestamp is read through its text: the
  text is stripped, everything from the first \<open>.\<close> on is cut off, and what is left is
  parsed with the format \<^verbatim>\<open>%H:%M:%S\<close>. With the reading of that format above, the
  cell \<^verbatim>\<open>"14:30:45.500"\<close> parses to the time 14:30:45, and with the date
  \<^verbatim>\<open>"13/10/2025"\<close> to the timestamp of that day at 14:30:45.
\<close>

theorem time_text_truncated:
  "time_part lib (Text s) = to_datetime_HMS lib (takeWhile (\<lambda>c. c \<noteq> CHR ''.'') (strip s))
   \<and> time_part lib (Num x)
        = to_datetime_HMS lib (takeWhile (\<lambda>c. c \<noteq> CHR ''.'') (strip (str_num lib x)))
   \<and> time_part sample_pandas (Text ''14:30:45.500'')
        = Inr \<lparr>hour = 14, minute = 30, second = 45, microsecond = 0\<rparr>
   \<and> parse_datetime_from_row sample_pandas (Text ''13/10/2025'') (Text ''14:30:45.500'')
        = Inr (Some (combine 739537 \<lparr>hour = 14, minute = 30, second = 45, microsecond = 0\<rparr>))"
proof (intro conjI)
  show "time_part lib (Text s) = to_datetime_HMS lib (takeWhile (\<lambda>c. c \<noteq> CHR ''.'') (strip s))"
    by (simp add: time_part_def Let_def str_def first_split takeWhile_no_sep)
  show "time_part lib (Num x)
        = to_datetime_HMS lib (takeWhile (\<lambda>c. c \<noteq> CHR ''.'') (strip (str_num lib x)))"
    by (simp add: time_part_def Let_def str_def first_split takeWhile_no_sep)
  show "time_part sample_pandas (Text ''14:30:45.500'')
        = Inr \<lparr>hour = 14, minute = 30, second = 45, microsecond = 0\<rparr>"
    by (simp add: parse_defs)
  show "parse_datetime_from_row sample_pandas (Text ''13/10/2025'') (Text ''14:30:45.500'')
        = Inr (Some (combine 739537 \<lparr>hour = 14, minute = 30, second = 45, microsecond = 0\<rparr>))"
    by (simp add: parse_defs)
qed

theorem time_text_truncated_witness:
  "time_part sample_pandas (Text (CHR 0xA0 # '' 07:05:09.25 ''))
     = Inr \<lparr>hour = 7, minute = 5, second = 9, microsecond = 0\<rparr>"
  using time_text_truncated [of sample_pandas "CHR 0xA0 # '' 07:05:09.25 ''"]
  by (simp add: parse_defs)

text \<open>
  C7. The row parser returns a timestamp or \<^verbatim>\<open>None\<close> and no exception leaves it: a
  missing cell gives \<^verbatim>\<open>None\<close>, and so does every exception raised inside its
  \<^verbatim>\<open>try\<close> block. The loop therefore builds a row of \<^verbatim>\<open>proc\<close> for every row of the
  table, with a missing timestamp wherever the parser returned \<^verbatim>\<open>None\<close>; and a row
  whose arrival or departure is missing is not in \<^verbatim>\<open>proc_valid\<close>, nor in the
  Arriving, Departing or In-Port subsets.
\<close>

theorem parser_never_raises:
  "(\<exists>v. parse_datetime_from_row lib date_val time_val = Inr v)
   \<and> (isna date_val \<or> isna time_val \<longrightarrow> parse_datetime_from_row lib date_val time_val = Inr None)
   \<and> (\<forall>e. try_block lib date_val time_val = Inl e
          \<longrightarrow> parse_datetime_from_row lib date_val time_val = Inr None)
   \<and> (\<exists>v. process_row lib cs row = Inr v)
   \<and> (\<forall>v. process_row lib cs row = Inr v
          \<and> (parse_datetime_from_row lib (loc row (col_arr_day cs)) (loc row (col_arr_time cs))
                = Inr None
             \<or> parse_datetime_from_row lib (loc row (col_dep_day cs)) (loc row (col_dep_time cs))
                = Inr None)
          \<longrightarrow> arrival_dt v = None \<or> departure_dt v = None)
   \<and> (arrival_dt r = None \<or> departure_dt r = None
        \<longrightarrow> r \<notin> set (proc_valid proc)
          \<and> r \<notin> set (arriving (proc_valid proc) current_dt end_dt)
          \<and> r \<notin> set (departing (proc_valid proc) current_dt end_dt)
          \<and> r \<notin> set (in_port (proc_valid proc) current_dt end_dt))"
proof (intro conjI)
  show p: "\<exists>v. parse_datetime_from_row lib date_val time_val = Inr v" for date_val time_val
    by (simp add: parse_datetime_from_row_def split: sum.split)
  show "isna date_val \<or> isna time_val \<longrightarrow> parse_datetime_from_row lib date_val time_val = Inr None"
    by (simp add: parse_datetime_from_row_def)
  show "\<forall>e. try_block lib date_val time_val = Inl e
          \<longrightarrow> parse_datetime_from_row lib date_val time_val = Inr None"
    by (auto simp: parse_datetime_from_row_def)
  show "\<exists>v. process_row lib cs row = Inr v"
    using p [of "loc row (col_arr_day cs)" "loc row (col_arr_time cs)"]
      p [of "loc row (col_dep_day cs)" "loc row (col_dep_time cs)"]
    by (auto simp: process_row_def)
  show "\<forall>v. process_row lib cs row = Inr v
          \<and> (parse_datetime_from_row lib (loc row (col_arr_day cs)) (loc row (col_arr_time cs))
                = Inr None
             \<or> parse_datetime_from_row lib (loc row (col_dep_day cs)) (loc row (col_dep_time cs))
                = Inr None)
          \<longrightarrow> arrival_dt v = None \<or> departure_dt v = None"
    by (auto simp: process_row_def split: sum.splits)
  show "arrival_dt r = None \<or> departure_dt r = None
        \<longrightarrow> r \<notin> set (proc_valid proc)
          \<and> r \<notin> set (arriving (proc_valid proc) current_dt end_dt)
          \<and> r \<notin> set (departing (proc_valid proc) current_dt end_dt)
          \<and> r \<notin> set (in_port (proc_valid proc) current_dt end_dt)"
    by (auto simp: proc_valid_def arriving_def departing_def in_port_def)
qed

theorem parser_never_raises_witness:
  "parse_datetime_from_row sample_pandas NaN (Text ''08:00:00'') = Inr None
   \<and> try_block sample_pandas (Text ''soon'') (Text ''08:00:00'') = Inl ParserError
   \<and> parse_datetime_from_row sample_pandas (Text ''soon'') (Text ''08:00:00'') = Inr None
   \<and> arrival_dt vessel_E = None
   \<and> vessel_E \<notin> set (proc_valid [vessel_A, vessel_E])
   \<and> vessel_E \<notin> set (in_port (proc_valid [vessel_A, vessel_E]) window_start window_end)"
  using parser_never_raises [of sample_pandas NaN "Text ''08:00:00''" sample_cols
      "hd (rows sample_df)" vessel_E "[vessel_A, vessel_E]" window_start window_end]
    parser_never_raises [of sample_pandas "Text ''soon''" "Text ''08:00:00''" sample_cols
      "hd (rows sample_df)" vessel_E "[vessel_A, vessel_E]" window_start window_end]
  by (simp add: parse_defs vessel_E_def)

section \<open>Properties of the deadweight series\<close>

lemma at_start_proc_valid:
  "at_start (proc_valid proc) current_dt =
     filter (\<lambda>r. \<exists>a d. arrival_dt r = Some a \<and> departure_dt r = Some d
                      \<and> a < current_dt \<and> d > current_dt) proc"
  unfolding at_start_def proc_valid_def filter_filter
  by (rule filter_cong) (auto simp: ts_defs split: option.splits)

text \<open>
  C6. \<open>initial_dwt\<close> is the sum of the deadweight, a missing one counting 0, over
  exactly the rows of \<^verbatim>\<open>proc\<close> that have both timestamps, arrived before the start of
  the window and leave after it; when no valid record does, it is 0.
\<close>

theorem initial_dwt_sum:
  "initial_dwt (proc_valid proc) current_dt =
     sum_list (map (\<lambda>r. case DWT r of None \<Rightarrow> 0 | Some w \<Rightarrow> w)
       (filter (\<lambda>r. \<exists>a d. arrival_dt r = Some a \<and> departure_dt r = Some d
                        \<and> a < current_dt \<and> d > current_dt) proc))
   \<and> ((\<forall>r \<in> set (proc_valid proc). \<forall>a d. arrival_dt r = Some a \<and> departure_dt r = Some d
          \<longrightarrow> \<not> (a < current_dt \<and> d > current_dt))
        \<longrightarrow> initial_dwt (proc_valid proc) current_dt = 0)"
proof
  show "initial_dwt (proc_valid proc) current_dt =
     sum_list (map (\<lambda>r. case DWT r of None \<Rightarrow> 0 | Some w \<Rightarrow> w)
       (filter (\<lambda>r. \<exists>a d. arrival_dt r = Some a \<and> departure_dt r = Some d
                        \<and> a < current_dt \<and> d > current_dt) proc))"
    by (simp add: initial_dwt_def at_start_proc_valid fillna0_def)
next
  show "(\<forall>r \<in> set (proc_valid proc). \<forall>a d. arrival_dt r = Some a \<and> departure_dt r = Some d
          \<longrightarrow> \<not> (a < current_dt \<and> d > current_dt))
        \<longrightarrow> initial_dwt (proc_valid proc) current_dt = 0"
  proof
    assume h: "\<forall>r \<in> set (proc_valid proc). \<forall>a d. arrival_dt r = Some a \<and> departure_dt r = Some d
          \<longrightarrow> \<not> (a < current_dt \<and> d > current_dt)"
    have "at_start (proc_valid proc) current_dt = []"
      unfolding at_start_def filter_empty_conv
      using h by (auto simp: ts_defs split: option.splits)
    then show "initial_dwt (proc_valid proc) current_dt = 0"
      by (simp add: initial_dwt_def)
  qed
qed

theorem initial_dwt_sum_witness:
  "initial_dwt (proc_valid [vessel_A, vessel_B, vessel_C, vessel_E, vessel_F]) window_start = 120000
   \<and> initial_dwt (proc_valid [vessel_B, vessel_C, vessel_D, vessel_E]) window_start = 0"
  using initial_dwt_sum [of "[vessel_A, vessel_B, vessel_C, vessel_E, vessel_F]" window_start]
    initial_dwt_sum [of "[vessel_B, vessel_C, vessel_D, vessel_E]" window_start]
  by (simp add: proc_valid_def sample_defs)

lemma row_events_Arrival:
  "\<lparr>ev_Date = a, ev_DWT = w, ev_Type = Arrival, ev_Vessel = s\<rparr>
      \<in> set (row_events current_dt end_dt row)
   \<longleftrightarrow> DWT row = Some w \<and> arrival_dt row = Some a \<and> SHIP row = s
       \<and> current_dt \<le> a \<and> a \<le> end_dt"
  by (auto simp: row_events_def split: option.splits)

lemma row_events_Departure:
  "\<lparr>ev_Date = d, ev_DWT = w, ev_Type = Departure, ev_Vessel = s\<rparr>
      \<in> set (row_events current_dt end_dt row)
   \<longleftrightarrow> DWT row = Some w \<and> departure_dt row = Some d \<and> SHIP row = s
       \<and> current_dt \<le> d \<and> d \<le> end_dt"
  by (auto simp: row_events_def split: option.splits)

text \<open>
  C2, as amended. For a valid record whose deadweight \<open>w\<close> is present, the event list
  holds its Arrival event exactly when its arrival lies in the window, both ends
  included, and its Departure event exactly when its departure does; the Arrival event
  changes the series by \<open>+w\<close> and the Departure event by \<open>-w\<close>. A record whose
  deadweight is missing adds no event: the loop skips it (\<^verbatim>\<open>pd.notna(row['DWT'])\<close>).
\<close>

theorem dwt_timeline_events:
  assumes "r \<in> set (proc_valid proc)"
    and "arrival_dt r = Some a" and "departure_dt r = Some d"
  shows "(DWT r = Some w \<longrightarrow>
            (\<lparr>ev_Date = a, ev_DWT = w, ev_Type = Arrival, ev_Vessel = SHIP r\<rparr>
                \<in> set (dwt_timeline (proc_valid proc) current_dt end_dt)
              \<longleftrightarrow> current_dt \<le> a \<and> a \<le> end_dt)
          \<and> (\<lparr>ev_Date = d, ev_DWT = w, ev_Type = Departure, ev_Vessel = SHIP r\<rparr>
                \<in> set (dwt_timeline (proc_valid proc) current_dt end_dt)
              \<longleftrightarrow> current_dt \<le> d \<and> d \<le> end_dt)
          \<and> DWT_Change \<lparr>ev_Date = a, ev_DWT = w, ev_Type = Arrival, ev_Vessel = SHIP r\<rparr> = w
          \<and> DWT_Change \<lparr>ev_Date = d, ev_DWT = w, ev_Type = Departure, ev_Vessel = SHIP r\<rparr> = - w)
       \<and> (DWT r = None \<longrightarrow> row_events current_dt end_dt r = [])"
proof (intro conjI impI)
  assume w: "DWT r = Some w"
  show "\<lparr>ev_Date = a, ev_DWT = w, ev_Type = Arrival, ev_Vessel = SHIP r\<rparr>
          \<in> set (dwt_timeline (proc_valid proc) current_dt end_dt)
        \<longleftrightarrow> current_dt \<le> a \<and> a \<le> end_dt"
    using assms w unfolding dwt_timeline_def set_concat set_map
    by (auto simp: row_events_Arrival)
  show "\<lparr>ev_Date = d, ev_DWT = w, ev_Type = Departure, ev_Vessel = SHIP r\<rparr>
          \<in> set (dwt_timeline (proc_valid proc) current_dt end_dt)
        \<longleftrightarrow> current_dt \<le> d \<and> d \<le> end_dt"
    using assms w unfolding dwt_timeline_def set_concat set_map
    by (auto simp: row_events_Departure)
  show "DWT_Change \<lparr>ev_Date = a, ev_DWT = w, ev_Type = Arrival, ev_Vessel = SHIP r\<rparr> = w"
    by (simp add: DWT_Change_def)
  show "DWT_Change \<lparr>ev_Date = d, ev_DWT = w, ev_Type = Departure, ev_Vessel = SHIP r\<rparr> = - w"
    by (simp add: DWT_Change_def)
next
  assume "DWT r = None"
  then show "row_events current_dt end_dt r = []"
    by (simp add: row_events_def)
qed

theorem dwt_timeline_events_witness:
  "vessel_A \<in> set (proc_valid [vessel_A, vessel_B])
   \<and> DWT vessel_A = Some 50000
   \<and> \<lparr>ev_Date = combine 739539 (at_clock 10 0), ev_DWT = 50000, ev_Type = Departure,
       ev_Vessel = Text ''A''\<rparr>
        \<in> set (dwt_timeline (proc_valid [vessel_A, vessel_B]) window_start window_end)
   \<and> \<lparr>ev_Date = combine 739534 (at_clock 8 0), ev_DWT = 50000, ev_Type = Arrival,
       ev_Vessel = Text ''A''\<rparr>
        \<notin> set (dwt_timeline (proc_valid [vessel_A, vessel_B]) window_start window_end)
   \<and> DWT vessel_B = None \<and> row_events window_start window_end vessel_B = []"
  using dwt_timeline_events [of vessel_A "[vessel_A, vessel_B]" "combine 739534 (at_clock 8 0)"
      "combine 739539 (at_clock 10 0)" 50000 window_start window_end]
    dwt_timeline_events [of vessel_B "[vessel_A, vessel_B]" "combine 739539 (at_clock 10 0)"
      "combine 739541 (at_clock 6 30)" 0 window_start window_end]
  by (simp add: proc_valid_def sample_defs)

text \<open>
  C2 as stated fails on a record without deadweight: vessel B is valid and arrives
  inside the window, and the event list has no event at all.
\<close>

theorem dwt_timeline_missing_dwt_counterexample:
  "vessel_B \<in> set (proc_valid [vessel_B])
   \<and> arrival_dt vessel_B = Some (combine 739539 (at_clock 10 0))
   \<and> window_start \<le> combine 739539 (at_clock 10 0)
   \<and> combine 739539 (at_clock 10 0) \<le> window_end
   \<and> DWT vessel_B = None
   \<and> dwt_timeline (proc_valid [vessel_B]) window_start window_end = []"
  by (simp add: proc_valid_def dwt_timeline_def row_events_def sample_defs)

lemma dwt_timeline_empty:
  "dwt_timeline pv current_dt end_dt = [] \<longleftrightarrow> (\<forall>r \<in> set pv. row_events current_dt end_dt r = [])"
  by (simp add: dwt_timeline_def)

text \<open>
  C3, as amended. When the event list of the window is empty and \<open>initial_dwt\<close> is
  positive, the series is the flat one of two points: \<open>initial_dwt\<close> at the start and at
  the end of the window. When the event list is empty and \<open>initial_dwt\<close> is not positive
  (0 in particular), no series is built: the script shows that there is no deadweight
  data for the period.
\<close>

theorem dwt_plot_no_events:
  assumes "dwt_timeline (proc_valid proc) current_dt end_dt = []"
  shows "(initial_dwt (proc_valid proc) current_dt > 0 \<longrightarrow>
            dwt_plot (proc_valid proc) current_dt end_dt =
              Some [\<lparr>pt_Date = current_dt,
                      pt_DWT_in_Port = initial_dwt (proc_valid proc) current_dt,
                      pt_Type = Initial\<rparr>,
                    \<lparr>pt_Date = end_dt,
                      pt_DWT_in_Port = initial_dwt (proc_valid proc) current_dt,
                      pt_Type = Final\<rparr>])
       \<and> (initial_dwt (proc_valid proc) current_dt \<le> 0 \<longrightarrow>
            dwt_plot (proc_valid proc) current_dt end_dt = None)"
  using assms by (simp add: dwt_plot_def Let_def)

theorem dwt_plot_no_events_witness:
  "dwt_timeline (proc_valid [vessel_C, vessel_F]) window_start window_end = []
   \<and> initial_dwt (proc_valid [vessel_C, vessel_F]) window_start = 70000
   \<and> dwt_plot (proc_valid [vessel_C, vessel_F]) window_start window_end =
       Some [\<lparr>pt_Date = window_start, pt_DWT_in_Port = 70000, pt_Type = Initial\<rparr>,
             \<lparr>pt_Date = window_end, pt_DWT_in_Port = 70000, pt_Type = Final\<rparr>]"
proof -
  have tl: "dwt_timeline (proc_valid [vessel_C, vessel_F]) window_start window_end = []"
    by (simp add: proc_valid_def dwt_timeline_def row_events_def sample_defs)
  have init: "initial_dwt (proc_valid [vessel_C, vessel_F]) window_start = 70000"
    by (simp add: proc_valid_def initial_dwt_def at_start_def ts_defs fillna0_def sample_defs)
  show ?thesis
    using dwt_plot_no_events [OF tl] tl init by simp
qed

text \<open>
  C3 as stated fails where \<open>initial_dwt\<close> is 0: vessel C has left before the window, so
  no event falls in it and nothing is in port at its start, and no series is built.
\<close>

theorem dwt_plot_zero_counterexample:
  "proc_valid [vessel_C] = [vessel_C]
   \<and> dwt_timeline (proc_valid [vessel_C]) window_start window_end = []
   \<and> initial_dwt (proc_valid [vessel_C]) window_start = 0
   \<and> dwt_plot (proc_valid [vessel_C]) window_start window_end = None"
  by (simp add: proc_valid_def dwt_plot_def dwt_timeline_def row_events_def initial_dwt_def
      at_start_def ts_defs sample_defs)

text \<open>A window with an event: A and F are in port at the start, and A leaves.\<close>

lemma dwt_plot_sample:
  "dwt_plot (proc_valid [vessel_A, vessel_F]) window_start window_end =
     Some [\<lparr>pt_Date = window_start, pt_DWT_in_Port = 120000, pt_Type = Initial\<rparr>,
           \<lparr>pt_Date = combine 739539 (at_clock 10 0), pt_DWT_in_Port = 70000,
             pt_Type = Departure\<rparr>]"
  by (simp add: proc_valid_def dwt_plot_def dwt_timeline_def row_events_def initial_dwt_def
      at_start_def ts_defs fillna0_def cumsum_def DWT_Change_def sample_defs)

section \<open>Properties of the dashboard script\<close>

lemmas col_names = ship_names_def arr_day_names_def arr_time_names_def dep_day_names_def
  dep_time_names_def berth_names_def docking_names_def est_docking_names_def dwt_names_def

text \<open>
  The window the dashboard builds from two dates ends at or before its start exactly
  when the end date is before the start date, and then the script stops with the
  configuration error, whatever the table.
\<close>

lemma window_check_dates:
  "combine end_date time_max \<le> combine start_date time_min \<longleftrightarrow> end_date < start_date"
  unfolding combine_def clock_us_def time_min_def time_max_def by simp arith

lemma window_rejected:
  assumes "combine end_date time_max \<le> combine start_date time_min"
  shows "run lib (Loaded df) start_date end_date = Inl ConfigError"
  using assms by (simp add: run_def)

lemma earlier_end_date_rejected:
  "end_date < start_date \<Longrightarrow> run lib (Loaded df) start_date end_date = Inl ConfigError"
  by (simp add: window_rejected window_check_dates)

lemma window_rejected_sample:
  "run sample_pandas (Loaded sample_df) 739537 739536 = Inl ConfigError"
  by (simp add: earlier_end_date_rejected)

text \<open>The sample table: its columns are found and its rows processed.\<close>

lemma sample_process:
  "process sample_pandas sample_cols (rows sample_df) =
     [vessel_A13,
      \<lparr>SHIP = Text ''G'', arrival_dt = None,
       departure_dt = Some (combine 739539 (at_clock 10 0)),
       Berth = NaN, DockingTime = None, EstDockingTime = None, DWT = Some 20000\<rparr>]"
  by (simp add: sample_df_def sample_cols_def vessel_A13_def process_row_def row_of_def loc_def
      loc_if_def loc_number_def loc_number_if_def parse_defs at_clock_def)

lemma sample_missing: "missing sample_df = []"
  by (simp add: missing_def try_get_col_def sample_df_def col_names)

lemma sample_cols_found:
  "try_get_col sample_df ship_names = Some ''SHIP''"
  "try_get_col sample_df arr_day_names = Some ''Arrival day''"
  "try_get_col sample_df arr_time_names = Some ''Arrival time''"
  "try_get_col sample_df dep_day_names = Some ''Departure day''"
  "try_get_col sample_df dep_time_names = Some ''Departure time''"
  "try_get_col sample_df berth_names = None"
  "try_get_col sample_df docking_names = None"
  "try_get_col sample_df est_docking_names = None"
  "try_get_col sample_df dwt_names = Some ''DWT''"
  by (simp_all add: try_get_col_def sample_df_def col_names)

lemma sample_proc_valid:
  "proc_valid (process sample_pandas sample_cols (rows sample_df)) = [vessel_A13]"
  by (simp add: sample_process proc_valid_def vessel_A13_def)

lemma run_sample:
  "run sample_pandas (Loaded sample_df) 739537 739544 =
     Inr (analyse [vessel_A13] window_start window_end)"
proof -
  have w: "\<not> combine 739544 time_max \<le> combine 739537 time_min"
    by (simp add: window_check_dates)
  show ?thesis
    unfolding run_def
    using w by (simp add: sample_missing sample_cols_found sample_proc_valid [unfolded sample_cols_def]
        window_start_def window_end_def)
qed

text \<open>
  C8. A window whose end is at or before its start is to stop the script with the
  configuration error, and the script says so itself: its check is commented
  \<^verbatim>\<open>Validate that end_date is greater than start_date\<close> and its message is
  \<^verbatim>\<open>End date must be after start date\<close>. The check compares the end of the end day
  with the start of the start day, so it lets an end date equal to the start date
  through: with both dates 13 October 2025 and the sample table loaded, the script does
  not stop, it classifies the records and finds vessel A in port.
\<close>

theorem same_day_window_not_rejected:
  "run sample_pandas (Loaded sample_df) 739537 739537 =
     Inr (analyse [vessel_A13] (combine 739537 time_min) (combine 739537 time_max))
   \<and> run sample_pandas (Loaded sample_df) 739537 739537 \<noteq> Inl ConfigError
   \<and> out_in_port (analyse [vessel_A13] (combine 739537 time_min) (combine 739537 time_max))
       = [vessel_A13]"
proof -
  have w: "\<not> combine 739537 time_max \<le> combine 739537 time_min"
    by (simp add: window_check_dates)
  have r: "run sample_pandas (Loaded sample_df) 739537 739537 =
     Inr (analyse [vessel_A13] (combine 739537 time_min) (combine 739537 time_max))"
    unfolding run_def
    using w by (simp add: sample_missing sample_cols_found sample_proc_valid [unfolded sample_cols_def])
  have p: "out_in_port (analyse [vessel_A13] (combine 739537 time_min) (combine 739537 time_max))
       = [vessel_A13]"
    by (simp add: analyse_def in_port_def ts_defs vessel_A13_def at_clock_def combine_def
        clock_us_def time_min_def time_max_def)
  show ?thesis using r p by simp
qed

section \<open>The lookahead filter and the In-Port classifier\<close>

text \<open>
  C4, as amended. On the window from \<open>t\<close> to \<open>t\<close> plus the lookahead, every record the
  In-Port classifier selects is selected by the lookahead filter, and the records the
  lookahead filter selects beyond those are exactly the ones on a boundary of the window:
  arrival at its end (with departure at or after \<open>t\<close>), or departure at \<open>t\<close> (with arrival
  at or before its end). The two selections are the same where no record lies on a
  boundary.
\<close>

theorem activos_in_port:
  "set (in_port df t (fin_ventana t L)) \<subseteq> set (activos df t L)
   \<and> set (activos df t L) - set (in_port df t (fin_ventana t L)) =
       {r \<in> set df. (arrival_dt r = Some (fin_ventana t L) \<and> ts_ge (departure_dt r) t)
                   \<or> (departure_dt r = Some t \<and> ts_le (arrival_dt r) (fin_ventana t L))}"
  by (auto simp: in_port_def activos_def ts_defs split: option.splits)

theorem activos_in_port_witness:
  "set (in_port [vessel_A, vessel_D] window_start (fin_ventana window_start 24)) = {vessel_A}
   \<and> set (activos [vessel_A, vessel_D] window_start 24) = {vessel_A, vessel_D}"
  using activos_in_port [of "[vessel_A, vessel_D]" window_start 24]
  by (simp add: activos_def in_port_def fin_ventana_def Timedelta_hours_def ts_defs sample_defs)

text \<open>
  C4 as stated fails on a boundary: vessel D leaves exactly at \<open>t\<close>, the start of the
  window; the lookahead filter selects it and the In-Port classifier does not.
\<close>

theorem activos_boundary_counterexample:
  "vessel_D \<in> set (activos [vessel_D] window_start 24)
   \<and> vessel_D \<notin> set (in_port [vessel_D] window_start (fin_ventana window_start 24))"
  by (simp add: activos_def in_port_def fin_ventana_def Timedelta_hours_def ts_defs sample_defs)

end
